theory Spec2Isabelle
  imports Main
begin

section \<open>Text\<close>

text \<open>
  Python strings are modelled as lists of characters. A \<^typ>\<open>char\<close> stands for one code
  point below 256; in that range the only decimal digits are \<open>0\<close>..\<open>9\<close> and the only
  letters folding onto ASCII letters are the ASCII letters themselves.
\<close>

definition in_range :: "char \<Rightarrow> char \<Rightarrow> char \<Rightarrow> bool" where
  "in_range lo hi c \<longleftrightarrow> (of_char lo :: nat) \<le> of_char c \<and> (of_char c :: nat) \<le> of_char hi"

definition is_digit :: "char \<Rightarrow> bool" where
  "is_digit c \<longleftrightarrow> in_range CHR ''0'' CHR ''9'' c"

text \<open>The character class \<open>[a-zA-Z0-9]\<close> of the carrier pattern.\<close>

definition is_alnum :: "char \<Rightarrow> bool" where
  "is_alnum c \<longleftrightarrow>
     in_range CHR ''a'' CHR ''z'' c \<or> in_range CHR ''A'' CHR ''Z'' c \<or> in_range CHR ''0'' CHR ''9'' c"

text \<open>Lower case of the ASCII letters; every other character is left as it is.\<close>

definition ascii_lower :: "char \<Rightarrow> char" where
  "ascii_lower c = (if in_range CHR ''A'' CHR ''Z'' c then char_of (of_char c + (32 :: nat)) else c)"

definition startswith :: "string \<Rightarrow> string \<Rightarrow> bool" where
  "startswith s sub \<longleftrightarrow> take (length sub) s = sub"

text \<open>Python's \<open>sub in s\<close> on strings.\<close>

fun py_in :: "string \<Rightarrow> string \<Rightarrow> bool" where
  "py_in sub [] = (sub = [])"
| "py_in sub (c # cs) = (startswith (c # cs) sub \<or> py_in sub cs)"

section \<open>The carrier filter\<close>

text \<open>
  \<open>$\<close> of Python's \<open>re\<close> without \<open>MULTILINE\<close>: the position is the end of the string, or
  just before a newline that is the last character of the string.
\<close>

definition re_dollar :: "string \<Rightarrow> bool" where
  "re_dollar rest \<longleftrightarrow> rest = [] \<or> rest = [CHR 0x0A]"

text \<open>
  \<open>is_carrier(s)\<close>: \<open>bool(re.match(r'^[a-zA-Z0-9]{3}-[a-zA-Z0-9]{3}$', s))\<close>, the pattern
  matched from the start of \<open>s\<close>, \<open>rest\<close> being what follows the seventh character.
\<close>

definition is_carrier :: "string \<Rightarrow> bool" where
  "is_carrier s =
     (case s of
        a # b # c # h # d # e # f # rest \<Rightarrow>
          is_alnum a \<and> is_alnum b \<and> is_alnum c \<and> h = CHR ''-'' \<and>
          is_alnum d \<and> is_alnum e \<and> is_alnum f \<and> re_dollar rest
      | _ \<Rightarrow> False)"

text \<open>
  The carrier-station pattern in the specification's words: exactly three alphanumeric
  characters, a hyphen, three alphanumeric characters, and nothing else.
\<close>

definition carrier_name :: "string \<Rightarrow> bool" where
  "carrier_name s \<longleftrightarrow>
     length s = 7 \<and> list_all is_alnum (take 3 s) \<and> s ! 3 = CHR ''-'' \<and> list_all is_alnum (drop 4 s)"

section \<open>Messages\<close>

text \<open>
  The dataclasses of the listener, with the fields that \<open>process_message\<close> reads. The
  optional fields it never reads (status flags, station type, economies, star position and
  so on) are left out. An \<open>Optional\<close> field is an \<^typ>\<open>'a option\<close>, \<^term>\<open>None\<close> being
  Python's \<open>None\<close>.
\<close>

record Commodity =
  name :: string
  meanPrice :: int
  buyPrice :: int
  stock :: int
  sellPrice :: int
  demand :: int

record CommodityMessage =
  systemName :: string
  stationName :: string
  marketId :: int
  timestamp :: string
  commodities :: "Commodity list"

record FSDJumpMessage =
  StarSystem :: string
  timestamp :: "string option"
  Population :: "int option"
  ControllingPower :: "string option"
  PowerplayState :: "string option"

record Header =
  uploaderID :: string
  softwareName :: string
  softwareVersion :: string

record EDDNCommodityMessage =
  schema_ref :: string
  header :: Header
  message :: CommodityMessage

record EDDNFSDJumpMessage =
  schema_ref :: string
  header :: Header
  message :: FSDJumpMessage

datatype py_error =
    ZlibError | UnicodeDecodeError | JSONError | KeyError | ValueError | TypeError

section \<open>The system-event filter\<close>

text \<open>Truth value of an optional string: \<open>None\<close> and the empty string are false.\<close>

definition truthy :: "string option \<Rightarrow> bool" where
  "truthy v = (case v of None \<Rightarrow> False | Some s \<Rightarrow> s \<noteq> [])"

text \<open>
  The condition of the system-event branch,
  \<open>Population > 0 and (ControllingPower or PowerplayState == 'Unoccupied')\<close>.
  Comparing \<open>None\<close> with \<open>0\<close> raises \<open>TypeError\<close>.
\<close>

definition fsd_filter :: "FSDJumpMessage \<Rightarrow> py_error + bool" where
  "fsd_filter m =
     (case Population m of
        None \<Rightarrow> Inl TypeError
      | Some p \<Rightarrow>
          Inr (p > 0 \<and> (truthy (ControllingPower m) \<or> PowerplayState m = Some ''Unoccupied'')))"

section \<open>Timestamps\<close>

text \<open>
  \<open>datetime.strptime(s, '%Y-%m-%dT%H:%M:%SZ')\<close> followed by
  \<open>strftime('%Y-%m-%d %H:%M:%S')\<close>. The standard library turns the format into the
  regular expression

  \<^verbatim>\<open>(?P<Y>\d\d\d\d)-(?P<m>1[0-2]|0[1-9]|[1-9])-(?P<d>3[0-1]|[1-2]\d|0[1-9]|[1-9]| [1-9])T\<close>
  \<^verbatim>\<open>(?P<H>2[0-3]|[0-1]\d|\d):(?P<M>[0-5]\d|\d):(?P<S>6[0-1]|[0-5]\d|\d)Z\<close>

  compiled with \<open>IGNORECASE\<close>, matches it at the start of the string, raises \<open>ValueError\<close>
  when it does not match or when the match stops before the end of the string, and then
  builds the \<open>datetime\<close>, whose constructor raises \<open>ValueError\<close> for a date or time that
  does not exist.
\<close>

record datetime =
  year :: nat
  month :: nat
  day :: nat
  hour :: nat
  minute :: nat
  second :: nat

text \<open>
  A state of the matcher is the list of the groups converted so far and the text still to
  be read. A group, given the text, returns its possible matches (the matched text and
  what follows it), the alternatives in the order in which the backtracking matcher tries
  them.
\<close>

type_synonym re_state = "nat list \<times> string"

definition re1 :: "(char \<Rightarrow> bool) \<Rightarrow> string \<Rightarrow> (string \<times> string) list" where
  "re1 P s = (case s of c # r \<Rightarrow> if P c then [([c], r)] else [] | [] \<Rightarrow> [])"

definition re2 :: "(char \<Rightarrow> bool) \<Rightarrow> (char \<Rightarrow> bool) \<Rightarrow> string \<Rightarrow> (string \<times> string) list" where
  "re2 P Q s = (case s of c # d # r \<Rightarrow> if P c \<and> Q d then [([c, d], r)] else [] | _ \<Rightarrow> [])"

text \<open>\<open>%Y\<close> is \<open>\d\d\d\d\<close>.\<close>

definition re_Y :: "string \<Rightarrow> (string \<times> string) list" where
  "re_Y s =
     (case s of
        a # b # c # d # r \<Rightarrow>
          if is_digit a \<and> is_digit b \<and> is_digit c \<and> is_digit d then [([a, b, c, d], r)] else []
      | _ \<Rightarrow> [])"

text \<open>\<open>%m\<close> is \<open>1[0-2]|0[1-9]|[1-9]\<close>.\<close>

definition re_m :: "string \<Rightarrow> (string \<times> string) list" where
  "re_m s =
     re2 (in_range CHR ''1'' CHR ''1'') (in_range CHR ''0'' CHR ''2'') s @
     re2 (in_range CHR ''0'' CHR ''0'') (in_range CHR ''1'' CHR ''9'') s @
     re1 (in_range CHR ''1'' CHR ''9'') s"

text \<open>\<open>%d\<close> is \<open>3[0-1]|[1-2]\d|0[1-9]|[1-9]| [1-9]\<close>.\<close>

definition re_d :: "string \<Rightarrow> (string \<times> string) list" where
  "re_d s =
     re2 (in_range CHR ''3'' CHR ''3'') (in_range CHR ''0'' CHR ''1'') s @
     re2 (in_range CHR ''1'' CHR ''2'') is_digit s @
     re2 (in_range CHR ''0'' CHR ''0'') (in_range CHR ''1'' CHR ''9'') s @
     re1 (in_range CHR ''1'' CHR ''9'') s @
     re2 (in_range CHR '' '' CHR '' '') (in_range CHR ''1'' CHR ''9'') s"

text \<open>\<open>%H\<close> is \<open>2[0-3]|[0-1]\d|\d\<close>.\<close>

definition re_H :: "string \<Rightarrow> (string \<times> string) list" where
  "re_H s =
     re2 (in_range CHR ''2'' CHR ''2'') (in_range CHR ''0'' CHR ''3'') s @
     re2 (in_range CHR ''0'' CHR ''1'') is_digit s @
     re1 is_digit s"

text \<open>\<open>%M\<close> is \<open>[0-5]\d|\d\<close>.\<close>

definition re_M :: "string \<Rightarrow> (string \<times> string) list" where
  "re_M s = re2 (in_range CHR ''0'' CHR ''5'') is_digit s @ re1 is_digit s"

text \<open>\<open>%S\<close> is \<open>6[0-1]|[0-5]\d|\d\<close>.\<close>

definition re_S :: "string \<Rightarrow> (string \<times> string) list" where
  "re_S s =
     re2 (in_range CHR ''6'' CHR ''6'') (in_range CHR ''0'' CHR ''1'') s @
     re2 (in_range CHR ''0'' CHR ''5'') is_digit s @
     re1 is_digit s"

definition digit_val :: "char \<Rightarrow> nat" where
  "digit_val c = of_char c - 48"

text \<open>\<open>int(text)\<close> on the text of a group: digits, after a space in one alternative of \<open>%d\<close>.\<close>

definition py_int :: "string \<Rightarrow> nat" where
  "py_int s = foldl (\<lambda>n c. 10 * n + digit_val c) 0 (dropWhile (\<lambda>c. c = CHR '' '') s)"

definition then_group :: "re_state list \<Rightarrow> (string \<Rightarrow> (string \<times> string) list) \<Rightarrow> re_state list" where
  "then_group ms g = concat (map (\<lambda>(gs, r). map (\<lambda>(t, r'). (gs @ [py_int t], r')) (g r)) ms)"

definition then_chr :: "re_state list \<Rightarrow> (char \<Rightarrow> bool) \<Rightarrow> re_state list" where
  "then_chr ms P =
     concat (map (\<lambda>(gs, r). case r of c # r' \<Rightarrow> if P c then [(gs, r')] else [] | [] \<Rightarrow> []) ms)"

text \<open>A literal character of the format, matched without regard to case.\<close>

definition lit :: "char \<Rightarrow> char \<Rightarrow> bool" where
  "lit l c \<longleftrightarrow> ascii_lower c = ascii_lower l"

text \<open>All matches of the whole expression at the start of \<open>s\<close>, the preferred one first.\<close>

definition strptime_regex :: "string \<Rightarrow> re_state list" where
  "strptime_regex s =
     then_chr (then_group (then_chr (then_group (then_chr (then_group
    (then_chr (then_group (then_chr (then_group (then_chr (then_group
       [([], s)]
       re_Y) (lit CHR ''-''))
       re_m) (lit CHR ''-''))
       re_d) (lit CHR ''T''))
       re_H) (lit CHR '':''))
       re_M) (lit CHR '':''))
       re_S) (lit CHR ''Z'')"

definition is_leap :: "nat \<Rightarrow> bool" where
  "is_leap y \<longleftrightarrow> y mod 4 = 0 \<and> (y mod 100 \<noteq> 0 \<or> y mod 400 = 0)"

definition days_in_month :: "nat \<Rightarrow> nat \<Rightarrow> nat" where
  "days_in_month y m =
     (if m = 2 then (if is_leap y then 29 else 28)
      else if m = 4 \<or> m = 6 \<or> m = 9 \<or> m = 11 then 30 else 31)"

text \<open>The checks of the \<open>date\<close> and \<open>datetime\<close> constructors.\<close>

definition valid_datetime :: "datetime \<Rightarrow> bool" where
  "valid_datetime dt \<longleftrightarrow>
     1 \<le> year dt \<and> year dt \<le> 9999 \<and> 1 \<le> month dt \<and> month dt \<le> 12 \<and>
     1 \<le> day dt \<and> day dt \<le> days_in_month (year dt) (month dt) \<and>
     hour dt \<le> 23 \<and> minute dt \<le> 59 \<and> second dt \<le> 59"

definition strptime_wire :: "string \<Rightarrow> py_error + datetime" where
  "strptime_wire s =
     (case strptime_regex s of
        [] \<Rightarrow> Inl ValueError
      | (gs, rest) # _ \<Rightarrow>
          if rest \<noteq> [] then Inl ValueError
          else (case gs of
                  [Y, m, d, H, M, S] \<Rightarrow>
                    (let dt = \<lparr>year = Y, month = m, day = d, hour = H, minute = M, second = S\<rparr>
                     in if valid_datetime dt then Inr dt else Inl ValueError)
                | _ \<Rightarrow> Inl ValueError))"

definition digit_char :: "nat \<Rightarrow> char" where
  "digit_char n = char_of (48 + n)"

definition zfill2 :: "nat \<Rightarrow> string" where
  "zfill2 n = [digit_char (n div 10), digit_char (n mod 10)]"

definition zfill4 :: "nat \<Rightarrow> string" where
  "zfill4 n =
     [digit_char (n div 1000), digit_char (n div 100 mod 10), digit_char (n div 10 mod 10),
      digit_char (n mod 10)]"

text \<open>
  \<open>strftime('%Y-%m-%d %H:%M:%S')\<close> on a valid \<open>datetime\<close>: every field zero-padded, the
  year to four digits as the library documents \<open>%Y\<close>.
\<close>

definition strftime_store :: "datetime \<Rightarrow> string" where
  "strftime_store dt =
     zfill4 (year dt) @ ''-'' @ zfill2 (month dt) @ ''-'' @ zfill2 (day dt) @ '' '' @
     zfill2 (hour dt) @ '':'' @ zfill2 (minute dt) @ '':'' @ zfill2 (second dt)"

text \<open>The conversion of \<open>process_message\<close>: the value of \<open>db_timestamp\<close>, or the exception.\<close>

definition normalize_timestamp :: "string \<Rightarrow> py_error + string" where
  "normalize_timestamp s =
     (case strptime_wire s of Inl e \<Rightarrow> Inl e | Inr dt \<Rightarrow> Inr (strftime_store dt))"

text \<open>
  The two formats in the specification's words. In a shape, \<open>d\<close> stands for any decimal
  digit and every other character for itself.
\<close>

fun has_shape :: "string \<Rightarrow> string \<Rightarrow> bool" where
  "has_shape [] [] = True"
| "has_shape (p # ps) (c # cs) = ((if p = CHR ''d'' then is_digit c else c = p) \<and> has_shape ps cs)"
| "has_shape _ _ = False"




section \<open>The trading store\<close>

text \<open>
  Modelled from the spec: the three tables of the trading store that the listener reads
  and updates. The schema is not part of the repository; the columns are those the SQL
  statements of \<open>process_message\<close> name. A table is the list of its rows in the order in
  which a scan visits them.
\<close>

record Item =
  item_id :: int
  name :: string
  avg_price :: int

record StationItem =
  station_id :: int
  item_id :: int
  demand_price :: int
  demand_units :: int
  demand_level :: int
  supply_price :: int
  supply_units :: int
  supply_level :: int
  modified :: string
  from_live :: int

record System =
  name :: string
  power :: "string option"
  modified :: string

record database =
  Item_table :: "Item list"
  StationItem_table :: "StationItem list"
  System_table :: "System list"

subsection \<open>The SQL functions used\<close>

text \<open>
  \<open>sql_like pattern text\<close> is \<open>text LIKE pattern\<close>: \<open>%\<close> stands for any run of characters,
  \<open>_\<close> for any single character, every other character for itself; \<open>LIKE\<close> folds the
  case of the ASCII letters only.
\<close>

fun sql_like :: "string \<Rightarrow> string \<Rightarrow> bool" where
  "sql_like [] [] = True"
| "sql_like [] (c # t) = False"
| "sql_like (p # ps) [] = (p = CHR ''%'' \<and> sql_like ps [])"
| "sql_like (p # ps) (c # t) =
     (if p = CHR ''%'' then sql_like ps (c # t) \<or> sql_like (p # ps) t
      else (p = CHR ''_'' \<or> ascii_lower p = ascii_lower c) \<and> sql_like ps t)"

text \<open>\<open>REPLACE(name, ' ', '')\<close>.\<close>

definition sql_replace_space :: "string \<Rightarrow> string" where
  "sql_replace_space s = filter (\<lambda>c. c \<noteq> CHR '' '') s"

subsection \<open>The statements of the listener\<close>

text \<open>
  The four statements \<open>process_message\<close> executes, with their bound parameters in the
  order of the placeholders.
\<close>

datatype stmt =
    SELECT_Item string
  | UPDATE_StationItem int int int int string int int
  | UPDATE_Item int int
  | UPDATE_System "string option" string string

text \<open>
  \<open>SELECT item_id FROM Item WHERE REPLACE(name, ' ', '') LIKE ?\<close>: the commodity's name is
  the pattern, the stored name without its spaces is the text.
\<close>

definition select_item_id :: "database \<Rightarrow> string \<Rightarrow> int list" where
  "select_item_id d pat =
     map Item.item_id (filter (\<lambda>r. sql_like pat (sql_replace_space (Item.name r))) (Item_table d))"

definition fetchone :: "'a list \<Rightarrow> 'a option" where
  "fetchone rows = (case rows of [] \<Rightarrow> None | r # _ \<Rightarrow> Some r)"

definition update_StationItem ::
  "int \<Rightarrow> int \<Rightarrow> int \<Rightarrow> int \<Rightarrow> string \<Rightarrow> int \<Rightarrow> int \<Rightarrow> StationItem \<Rightarrow> StationItem" where
  "update_StationItem dp du sp su ts sid iid r =
     (if station_id r = sid \<and> StationItem.item_id r = iid
      then r\<lparr>demand_price := dp, demand_units := du, demand_level := 0,
             supply_price := sp, supply_units := su, supply_level := 0,
             StationItem.modified := ts, from_live := 1\<rparr>
      else r)"

definition update_Item :: "int \<Rightarrow> int \<Rightarrow> Item \<Rightarrow> Item" where
  "update_Item ap iid r = (if Item.item_id r = iid then r\<lparr>avg_price := ap\<rparr> else r)"

definition update_System :: "string option \<Rightarrow> string \<Rightarrow> string \<Rightarrow> System \<Rightarrow> System" where
  "update_System pw ts pat r =
     (if sql_like pat (System.name r) then r\<lparr>power := pw, System.modified := ts\<rparr> else r)"

fun run_stmt :: "stmt \<Rightarrow> database \<Rightarrow> database" where
  "run_stmt (SELECT_Item pat) d = d"
| "run_stmt (UPDATE_StationItem dp du sp su ts sid iid) d =
     d\<lparr>StationItem_table := map (update_StationItem dp du sp su ts sid iid) (StationItem_table d)\<rparr>"
| "run_stmt (UPDATE_Item ap iid) d = d\<lparr>Item_table := map (update_Item ap iid) (Item_table d)\<rparr>"
| "run_stmt (UPDATE_System pw ts pat) d =
     d\<lparr>System_table := map (update_System pw ts pat) (System_table d)\<rparr>"


section \<open>Processing one message\<close>

text \<open>
  What a worker does to the outside world is recorded in order: what it prints and what
  it asks of the store. The calls of \<open>sqlite3\<close> are taken to succeed (the store can be
  opened and is not locked, and every integer bound to a statement fits the 64 bits of the
  store's integers), and a statement's effect is applied to the tables when it is
  executed: every path of \<open>process_message\<close> that executes a statement goes on to
  \<open>commit\<close>.
\<close>

datatype event =
    Print_Market string string string string
  | Print_System string "string option" "string option" string string
  | Print_Error py_error
  | Connect
  | Execute stmt
  | Commit
  | Close

record world =
  db :: database
  trace :: "event list"

definition emit :: "event \<Rightarrow> world \<Rightarrow> world" where
  "emit e w = w\<lparr>trace := trace w @ [e]\<rparr>"

definition execute :: "stmt \<Rightarrow> world \<Rightarrow> world" where
  "execute q w = w\<lparr>db := run_stmt q (db w), trace := trace w @ [Execute q]\<rparr>"


text \<open>The body of \<open>for commodity in eddn_message.message.commodities\<close>.\<close>

definition for_commodity :: "int \<Rightarrow> string \<Rightarrow> Commodity \<Rightarrow> world \<Rightarrow> world" where
  "for_commodity market db_timestamp commodity w =
     (let w1 = execute (SELECT_Item (Commodity.name commodity)) w in
      case fetchone (select_item_id (db w1) (Commodity.name commodity)) of
        None \<Rightarrow> w1
      | Some commodity_id \<Rightarrow>
          execute (UPDATE_Item (meanPrice commodity) commodity_id)
            (execute
               (UPDATE_StationItem (sellPrice commodity) (demand commodity)
                  (buyPrice commodity) (stock commodity) db_timestamp market commodity_id)
               w1))"

fun for_commodities :: "int \<Rightarrow> string \<Rightarrow> Commodity list \<Rightarrow> world \<Rightarrow> world" where
  "for_commodities market db_timestamp [] w = w"
| "for_commodities market db_timestamp (c # cs) w =
     for_commodities market db_timestamp cs (for_commodity market db_timestamp c w)"

text \<open>
  The branch of a parsed commodity message. The result is the exception that leaves the
  \<open>try\<close> block, if any, and the world as the branch leaves it.
\<close>

definition commodity_branch :: "EDDNCommodityMessage \<Rightarrow> world \<Rightarrow> py_error option \<times> world" where
  "commodity_branch eddn_message w =
     (let m = EDDNCommodityMessage.message eddn_message; h = EDDNCommodityMessage.header eddn_message in
      if is_carrier (stationName m) then (None, w)
      else
        let w1 = emit (Print_Market (systemName m) (stationName m) (softwareName h) (softwareVersion h)) w;
            w2 = emit Connect w1
        in case normalize_timestamp (CommodityMessage.timestamp m) of
             Inl e \<Rightarrow> (Some e, w2)
           | Inr db_timestamp \<Rightarrow>
               (None, emit Close (emit Commit
                  (for_commodities (marketId m) db_timestamp (commodities m) w2))))"

text \<open>\<open>strptime\<close> of the optional timestamp of a system event: \<open>None\<close> is not a string.\<close>

definition normalize_optional :: "string option \<Rightarrow> py_error + string" where
  "normalize_optional t = (case t of None \<Rightarrow> Inl TypeError | Some s \<Rightarrow> normalize_timestamp s)"

text \<open>The branch of a parsed system event.\<close>

definition fsdjump_branch :: "EDDNFSDJumpMessage \<Rightarrow> world \<Rightarrow> py_error option \<times> world" where
  "fsdjump_branch eddn_message w =
     (let m = EDDNFSDJumpMessage.message eddn_message; h = EDDNFSDJumpMessage.header eddn_message in
      case fsd_filter m of
        Inl e \<Rightarrow> (Some e, w)
      | Inr False \<Rightarrow> (None, w)
      | Inr True \<Rightarrow>
          let w1 = emit (Print_System (StarSystem m) (ControllingPower m) (PowerplayState m)
                     (softwareName h) (softwareVersion h)) w;
              w2 = emit Connect w1
          in case normalize_optional (FSDJumpMessage.timestamp m) of
               Inl e \<Rightarrow> (Some e, w2)
             | Inr db_timestamp \<Rightarrow>
                 (None, emit Close (emit Commit
                    (execute (UPDATE_System (ControllingPower m) db_timestamp (StarSystem m)) w2))))"

text \<open>
  \<open>zlib.decompress\<close> with the decoding to text, and the two \<open>from_json\<close> parsers that
  \<open>dataclasses_json\<close> generates, are libraries outside the repository: they are parameters
  of the model. \<open>'f\<close> is the type of the raw frames.
\<close>

record 'f codec =
  decompress :: "'f \<Rightarrow> py_error + string"
  commodity_from_json :: "string \<Rightarrow> py_error + EDDNCommodityMessage"
  fsdjump_from_json :: "string \<Rightarrow> py_error + EDDNFSDJumpMessage"

datatype route = Commodity_route | FSDJump_route | No_route

text \<open>The tests of the \<open>if\<close> / \<open>elif\<close> chain on the decoded text, in their order.\<close>

definition classify :: "string \<Rightarrow> route" where
  "classify json_string =
     (if py_in ''commodity'' json_string then Commodity_route
      else if py_in ''journal'' json_string \<and> py_in ''FSDJump'' json_string then FSDJump_route
      else No_route)"

definition process_payload :: "'f codec \<Rightarrow> string \<Rightarrow> world \<Rightarrow> py_error option \<times> world" where
  "process_payload K json_string w =
     (case classify json_string of
        Commodity_route \<Rightarrow>
          (case commodity_from_json K json_string of
             Inl e \<Rightarrow> (Some e, w)
           | Inr eddn_message \<Rightarrow> commodity_branch eddn_message w)
      | FSDJump_route \<Rightarrow>
          (case fsdjump_from_json K json_string of
             Inl e \<Rightarrow> (Some e, w)
           | Inr eddn_message \<Rightarrow> fsdjump_branch eddn_message w)
      | No_route \<Rightarrow> (None, w))"

text \<open>The \<open>try\<close> block on a frame taken from the queue.\<close>

definition try_block :: "'f codec \<Rightarrow> 'f \<Rightarrow> world \<Rightarrow> py_error option \<times> world" where
  "try_block K frame w =
     (case decompress K frame of
        Inl e \<Rightarrow> (Some e, w)
      | Inr json_string \<Rightarrow> process_payload K json_string w)"

text \<open>The \<open>try\<close> block with its handler \<open>except Exception\<close>, which prints the error.\<close>

definition handle_frame :: "'f codec \<Rightarrow> 'f \<Rightarrow> world \<Rightarrow> world" where
  "handle_frame K frame w =
     (case try_block K frame w of
        (None, w') \<Rightarrow> w'
      | (Some e, w') \<Rightarrow> emit (Print_Error e) w')"

subsection \<open>The effect of one commodity on one row\<close>

text \<open>
  What the two \<open>UPDATE\<close> statements of one pass of the loop do to a row of \<open>StationItem\<close>
  and to a row of \<open>Item\<close>, the item being looked up in the store \<open>d\<close>.
\<close>

definition si_step :: "database \<Rightarrow> int \<Rightarrow> string \<Rightarrow> Commodity \<Rightarrow> StationItem \<Rightarrow> StationItem" where
  "si_step d market db_timestamp c r =
     (case fetchone (select_item_id d (Commodity.name c)) of
        None \<Rightarrow> r
      | Some commodity_id \<Rightarrow>
          update_StationItem (sellPrice c) (demand c) (buyPrice c) (stock c) db_timestamp market
            commodity_id r)"

definition item_step :: "database \<Rightarrow> Commodity \<Rightarrow> Item \<Rightarrow> Item" where
  "item_step d c r =
     (case fetchone (select_item_id d (Commodity.name c)) of
        None \<Rightarrow> r
      | Some commodity_id \<Rightarrow> update_Item (meanPrice c) commodity_id r)"

section \<open>The threads\<close>

text \<open>
  The state shared by the threads: the two globals \<open>run_loop\<close> and \<open>message_queue\<close> (an
  item is a frame, or \<open>None\<close>, the sentinel), where each worker and the subscriber stand in
  their loops, how many sentinels the main thread has put, and the world. The last three
  fields are history: the frames put on the queue, the frames handed to the \<open>try\<close> block,
  and the number of sentinels each worker has taken.

  A worker is at the test of \<open>while run_loop\<close>, or inside \<open>message_queue.get\<close>, or has left
  its loop. The subscriber is in its loop, or has polled a frame and passed the test
  \<open>if not run_loop\<close> and is about to put the frame, or has left its loop.
\<close>

definition num_workers :: nat where
  "num_workers = 16"

datatype worker_state = At_while | In_get | Returned

datatype 'f subscriber_state = Polling | Putting 'f | Ended

record 'f pipeline =
  run_loop :: bool
  message_queue :: "'f option list"
  workers :: "worker_state list"
  subscriber :: "'f subscriber_state"
  sentinels_put :: nat
  store :: world
  received :: "'f list"
  handled :: "'f list"
  sentinels_taken :: "nat list"

definition start :: "world \<Rightarrow> 'f pipeline" where
  "start w =
     \<lparr>run_loop = True, message_queue = [], workers = replicate num_workers At_while,
      subscriber = Polling, sentinels_put = 0, store = w, received = [], handled = [],
      sentinels_taken = replicate num_workers 0\<rparr>"

text \<open>
  One step of worker \<open>i\<close>. At the test of the loop it reads the flag and goes on to \<open>get\<close>,
  or leaves the loop. Inside \<open>get\<close> it takes the first item of the queue: a sentinel makes
  it leave the loop, a frame goes through the \<open>try\<close> block and the worker is back at the
  test; on an empty queue \<open>get\<close> times out and the worker is back at the test. Taking a
  frame and handling it is one step: the handling of two frames does not overlap.
\<close>

definition worker_step :: "'f codec \<Rightarrow> nat \<Rightarrow> 'f pipeline \<Rightarrow> 'f pipeline" where
  "worker_step K i s =
     (if \<not> i < length (workers s) then s
      else case workers s ! i of
             Returned \<Rightarrow> s
           | At_while \<Rightarrow>
               s\<lparr>workers := (workers s)[i := (if run_loop s then In_get else Returned)]\<rparr>
           | In_get \<Rightarrow>
               (case message_queue s of
                  [] \<Rightarrow> s\<lparr>workers := (workers s)[i := At_while]\<rparr>
                | None # q \<Rightarrow>
                    s\<lparr>message_queue := q, workers := (workers s)[i := Returned],
                      sentinels_taken := (sentinels_taken s)[i := Suc (sentinels_taken s ! i)]\<rparr>
                | Some frame # q \<Rightarrow>
                    s\<lparr>message_queue := q, workers := (workers s)[i := At_while],
                      store := handle_frame K frame (store s),
                      handled := handled s @ [frame]\<rparr>))"

text \<open>
  The steps of the threads. The interrupt (\<open>handle_sigint\<close>, or \<open>on_press\<close> on the escape
  key) clears the flag. The subscriber, with the flag set, polls a frame; it then puts the
  frame; with the flag cleared it leaves its loop. The main thread, once the subscriber
  thread has ended, puts one sentinel for each worker. A step that the state does not
  allow changes nothing.
\<close>

datatype 'f action = Interrupt | Receive 'f | Put | Subscriber_exit | Put_sentinel | Worker nat

fun fire :: "'f codec \<Rightarrow> 'f action \<Rightarrow> 'f pipeline \<Rightarrow> 'f pipeline" where
  "fire K Interrupt s = s\<lparr>run_loop := False\<rparr>"
| "fire K (Receive f) s =
     (if subscriber s = Polling \<and> run_loop s then s\<lparr>subscriber := Putting f\<rparr> else s)"
| "fire K Put s =
     (case subscriber s of
        Putting f \<Rightarrow>
          s\<lparr>message_queue := message_queue s @ [Some f], received := received s @ [f],
            subscriber := Polling\<rparr>
      | _ \<Rightarrow> s)"
| "fire K Subscriber_exit s =
     (if subscriber s = Polling \<and> \<not> run_loop s then s\<lparr>subscriber := Ended\<rparr> else s)"
| "fire K Put_sentinel s =
     (if subscriber s = Ended \<and> sentinels_put s < length (workers s)
      then s\<lparr>message_queue := message_queue s @ [None], sentinels_put := Suc (sentinels_put s)\<rparr>
      else s)"
| "fire K (Worker i) s = worker_step K i s"

definition run :: "'f codec \<Rightarrow> 'f action list \<Rightarrow> 'f pipeline \<Rightarrow> 'f pipeline" where
  "run K schedule s = foldl (\<lambda>s a. fire K a s) s schedule"

text \<open>The frames among the items of a queue.\<close>

definition frames_of :: "'f option list \<Rightarrow> 'f list" where
  "frames_of q = concat (map (\<lambda>item. case item of None \<Rightarrow> [] | Some f \<Rightarrow> [f]) q)"



section \<open>Example data\<close>

text \<open>
  A small store, messages and a codec on which the statements below are evaluated. The
  frames of the example codec are numbers: frames 1 and 2 decode to commodity updates
  (the timestamp of the second is not in wire format), frame 3 to a system event, frame 4
  to a message of another schema, and every other frame fails to decompress.
\<close>

definition example_db :: database where
  "example_db =
     \<lparr>Item_table =
        [\<lparr>Item.item_id = 7, Item.name = ''Tritium'', avg_price = 40000\<rparr>,
         \<lparr>Item.item_id = 9, Item.name = ''Agronomic Treatment'', avg_price = 3000\<rparr>],
      StationItem_table =
        [\<lparr>station_id = 128, StationItem.item_id = 7, demand_price = 1, demand_units = 2,
          demand_level = 3, supply_price = 4, supply_units = 5, supply_level = 6,
          StationItem.modified = ''2023-06-01 00:00:00'', from_live = 0\<rparr>,
         \<lparr>station_id = 128, StationItem.item_id = 9, demand_price = 11, demand_units = 12,
          demand_level = 1, supply_price = 14, supply_units = 15, supply_level = 2,
          StationItem.modified = ''2023-06-01 00:00:00'', from_live = 0\<rparr>,
         \<lparr>station_id = 555, StationItem.item_id = 7, demand_price = 21, demand_units = 22,
          demand_level = 2, supply_price = 24, supply_units = 25, supply_level = 1,
          StationItem.modified = ''2023-06-01 00:00:00'', from_live = 0\<rparr>],
      System_table =
        [\<lparr>System.name = ''Sol'', power = Some ''Zachary Hudson'',
          System.modified = ''2023-06-01 00:00:00''\<rparr>,
         \<lparr>System.name = ''Lave'', power = None, System.modified = ''2023-06-01 00:00:00''\<rparr>]\<rparr>"

definition example_world :: world where
  "example_world = \<lparr>db = example_db, trace = []\<rparr>"

definition example_header :: Header where
  "example_header = \<lparr>uploaderID = ''cmdr'', softwareName = ''EDMC'', softwareVersion = ''5.10''\<rparr>"

definition tritium :: Commodity where
  "tritium =
     \<lparr>Commodity.name = ''tritium'', meanPrice = 1350, buyPrice = 1200, stock = 50,
      sellPrice = 1500, demand = 200\<rparr>"

definition unobtainium :: Commodity where
  "unobtainium =
     \<lparr>Commodity.name = ''unobtainium'', meanPrice = 9, buyPrice = 8, stock = 7,
      sellPrice = 6, demand = 5\<rparr>"

definition agronomic :: Commodity where
  "agronomic =
     \<lparr>Commodity.name = ''agronomictreatment'', meanPrice = 3100, buyPrice = 0, stock = 0,
      sellPrice = 3300, demand = 900\<rparr>"

definition example_update :: "string \<Rightarrow> Commodity list \<Rightarrow> EDDNCommodityMessage" where
  "example_update ts cs =
     \<lparr>EDDNCommodityMessage.schema_ref = ''https://eddn.edcd.io/schemas/commodity/3'',
      EDDNCommodityMessage.header = example_header,
      EDDNCommodityMessage.message =
        \<lparr>systemName = ''Shinrarta Dezhra'', stationName = ''Jameson Memorial'', marketId = 128,
         CommodityMessage.timestamp = ts, commodities = cs\<rparr>\<rparr>"


definition example_jump :: "string option \<Rightarrow> string option \<Rightarrow> EDDNFSDJumpMessage" where
  "example_jump cp ts =
     \<lparr>EDDNFSDJumpMessage.schema_ref = ''https://eddn.edcd.io/schemas/journal/1'',
      EDDNFSDJumpMessage.header = example_header,
      EDDNFSDJumpMessage.message =
        \<lparr>StarSystem = ''sol'', FSDJumpMessage.timestamp = ts, Population = Some 1000000,
         ControllingPower = cp, PowerplayState = Some ''Unoccupied''\<rparr>\<rparr>"

definition example_codec :: "nat codec" where
  "example_codec =
     \<lparr>decompress =
        (\<lambda>frame.
           if frame = 1 then Inr ''schemas/commodity/3 first''
           else if frame = 2 then Inr ''schemas/commodity/3 second''
           else if frame = 3 then Inr ''schemas/journal/1 FSDJump''
           else if frame = 4 then Inr ''schemas/outfitting/2''
           else Inl ZlibError),
      commodity_from_json =
        (\<lambda>json_string.
           if json_string = ''schemas/commodity/3 first''
           then Inr (example_update ''2024-01-01T12:00:00Z'' [unobtainium, tritium, agronomic])
           else if json_string = ''schemas/commodity/3 second''
           then Inr (example_update ''2024-01-01 12:00:00'' [tritium])
           else Inl JSONError),
      fsdjump_from_json =
        (\<lambda>json_string.
           if json_string = ''schemas/journal/1 FSDJump''
           then Inr (example_jump None (Some ''2024-01-01T12:00:00Z''))
           else Inl JSONError)\<rparr>"

section \<open>Properties of the filters\<close>

lemma is_alnum_cases:
  "is_alnum c \<longleftrightarrow>
     (97 \<le> (of_char c :: nat) \<and> (of_char c :: nat) \<le> 122) \<or>
     (65 \<le> (of_char c :: nat) \<and> (of_char c :: nat) \<le> 90) \<or>
     (48 \<le> (of_char c :: nat) \<and> (of_char c :: nat) \<le> 57)"
  by (simp add: is_alnum_def in_range_def)

lemma carrier_name_iff:
  "carrier_name s \<longleftrightarrow>
     (\<exists>a b c d e f. s = [a, b, c, CHR ''-'', d, e, f] \<and>
        is_alnum a \<and> is_alnum b \<and> is_alnum c \<and> is_alnum d \<and> is_alnum e \<and> is_alnum f)"
proof
  assume cn: "carrier_name s"
  then have len: "length s = 7" by (simp add: carrier_name_def)
  then obtain a b c h d e f where s: "s = [a, b, c, h, d, e, f]"
    by (auto simp: length_Suc_conv eval_nat_numeral)
  with cn show "\<exists>a b c d e f. s = [a, b, c, CHR ''-'', d, e, f] \<and>
        is_alnum a \<and> is_alnum b \<and> is_alnum c \<and> is_alnum d \<and> is_alnum e \<and> is_alnum f"
    by (simp add: carrier_name_def eval_nat_numeral)
next
  assume "\<exists>a b c d e f. s = [a, b, c, CHR ''-'', d, e, f] \<and>
        is_alnum a \<and> is_alnum b \<and> is_alnum c \<and> is_alnum d \<and> is_alnum e \<and> is_alnum f"
  then show "carrier_name s"
    by (auto simp: carrier_name_def eval_nat_numeral)
qed

text \<open>
  What \<open>is_carrier\<close> accepts: the seven-character carrier names, and those names followed
  by one newline.
\<close>

lemma is_carrier_iff:
  "is_carrier s \<longleftrightarrow> carrier_name s \<or> (\<exists>t. carrier_name t \<and> s = t @ [CHR 0x0A])"
proof
  assume ic: "is_carrier s"
  then obtain a b c h d e f rest where s: "s = a # b # c # h # d # e # f # rest"
    by (auto simp: is_carrier_def split: list.splits)
  with ic have al: "is_alnum a" "is_alnum b" "is_alnum c" "h = CHR ''-''"
      "is_alnum d" "is_alnum e" "is_alnum f" and r: "rest = [] \<or> rest = [CHR 0x0A]"
    by (simp_all add: is_carrier_def re_dollar_def)
  have cn: "carrier_name [a, b, c, CHR ''-'', d, e, f]"
    unfolding carrier_name_iff using al by blast
  from r show "carrier_name s \<or> (\<exists>t. carrier_name t \<and> s = t @ [CHR 0x0A])"
  proof
    assume "rest = []"
    with s al cn show ?thesis by simp
  next
    assume "rest = [CHR 0x0A]"
    with s al have "s = [a, b, c, CHR ''-'', d, e, f] @ [CHR 0x0A]" by simp
    with cn show ?thesis by blast
  qed
next
  assume "carrier_name s \<or> (\<exists>t. carrier_name t \<and> s = t @ [CHR 0x0A])"
  then show "is_carrier s"
    by (auto simp: carrier_name_iff is_carrier_def re_dollar_def)
qed

text \<open>
  C3. The carrier filter rejects a station name if and only if the name is three
  alphanumeric characters, a hyphen and three alphanumeric characters, anchored at both
  ends. \<open>ABC-123\<close> and \<open>Q1X-9YZ\<close> are rejected and \<open>Jameson Memorial\<close> passes, as stated; but
  the eight-character name \<open>ABC-123\<close> followed by a newline is rejected too, because \<open>$\<close>
  also matches before a final newline.
\<close>

theorem C3_is_carrier_trailing_newline:
  "is_carrier ''ABC-123'' \<and> is_carrier ''Q1X-9YZ'' \<and> \<not> is_carrier ''Jameson Memorial'' \<and>
   is_carrier (''ABC-123'' @ [CHR 0x0A]) \<and> \<not> carrier_name (''ABC-123'' @ [CHR 0x0A])"
  by (simp add: is_carrier_def carrier_name_def re_dollar_def is_alnum_def in_range_def)

text \<open>
  C2. A parsed system event passes the filter if and only if its population is greater
  than 0 and a controlling power is present (a value that is neither \<open>None\<close> nor the empty
  string) or its powerplay state equals \<open>Unoccupied\<close>. Population 0 is rejected whatever
  the controlling-power fields are; population 1000000 is accepted with controlling power
  \<open>Federation\<close>, accepted with no controlling power and state \<open>Unoccupied\<close>, and rejected
  with no controlling power and state \<open>Controlled\<close>.
\<close>

theorem C2_fsd_filter_accepts_iff:
  "(fsd_filter m = Inr True \<longleftrightarrow>
      (\<exists>p. Population m = Some p \<and> p > 0) \<and>
      ((\<exists>cp. ControllingPower m = Some cp \<and> cp \<noteq> []) \<or> PowerplayState m = Some ''Unoccupied'')) \<and>
   fsd_filter (m\<lparr>Population := Some 0\<rparr>) = Inr False \<and>
   fsd_filter (m\<lparr>Population := Some 1000000, ControllingPower := Some ''Federation''\<rparr>) = Inr True \<and>
   fsd_filter (m\<lparr>Population := Some 1000000, ControllingPower := None,
                  PowerplayState := Some ''Unoccupied''\<rparr>) = Inr True \<and>
   fsd_filter (m\<lparr>Population := Some 1000000, ControllingPower := None,
                  PowerplayState := Some ''Controlled''\<rparr>) = Inr False"
  by (auto simp: fsd_filter_def truthy_def split: option.splits)

section \<open>Properties of the name lookup\<close>






section \<open>Properties of the timestamp conversion\<close>
















lemma has_shape_Cons:
  "has_shape (p # ps) s \<longleftrightarrow>
     (\<exists>c cs. s = c # cs \<and> (if p = CHR ''d'' then is_digit c else c = p) \<and> has_shape ps cs)"
  by (cases s) auto























section \<open>Properties of the commodity branch\<close>

lemma world_simps [simp]:
  "db (emit e w) = db w" "trace (emit e w) = trace w @ [e]"
  "db (execute q w) = run_stmt q (db w)" "trace (execute q w) = trace w @ [Execute q]"
  by (simp_all add: emit_def execute_def)

lemma filter_map_preserved:
  assumes "\<And>r. P (f r) = P r"
  shows "filter P (map f rows) = map f (filter P rows)"
  using assms by (induction rows) simp_all

lemma select_item_id_map:
  assumes "\<And>r. Item.item_id (f r) = Item.item_id r" and "\<And>r. Item.name (f r) = Item.name r"
  shows "select_item_id (d\<lparr>Item_table := map f (Item_table d)\<rparr>) pat = select_item_id d pat"
  by (simp add: select_item_id_def filter_map_preserved assms o_def)

lemma select_item_id_StationItem [simp]:
  "select_item_id (d\<lparr>StationItem_table := t\<rparr>) pat = select_item_id d pat"
  by (simp add: select_item_id_def)

lemma item_step_keys [simp]:
  "Item.item_id (item_step d c r) = Item.item_id r" "Item.name (item_step d c r) = Item.name r"
  by (simp_all add: item_step_def update_Item_def split: option.splits)

lemma si_step_keys [simp]:
  "station_id (si_step d mk ts c r) = station_id r"
  "StationItem.item_id (si_step d mk ts c r) = StationItem.item_id r"
  by (simp_all add: si_step_def update_StationItem_def split: option.splits)

lemma for_commodity_db:
  "db (for_commodity mk ts c w) =
     (db w)\<lparr>StationItem_table := map (si_step (db w) mk ts c) (StationItem_table (db w)),
            Item_table := map (item_step (db w) c) (Item_table (db w))\<rparr>"
proof (cases "fetchone (select_item_id (db w) (Commodity.name c))")
  case None
  then have "si_step (db w) mk ts c = (\<lambda>r. r)" "item_step (db w) c = (\<lambda>r. r)"
    by (simp_all add: si_step_def item_step_def fun_eq_iff)
  with None show ?thesis
    by (simp add: for_commodity_def)
next
  case (Some iid)
  then have "si_step (db w) mk ts c = update_StationItem (sellPrice c) (demand c) (buyPrice c) (stock c) ts mk iid"
    "item_step (db w) c = update_Item (meanPrice c) iid"
    by (simp_all add: si_step_def item_step_def fun_eq_iff)
  with Some show ?thesis
    by (simp add: for_commodity_def)
qed

lemma select_for_commodity [simp]:
  "select_item_id (db (for_commodity mk ts c w)) pat = select_item_id (db w) pat"
  unfolding for_commodity_db
  using select_item_id_map [of "item_step (db w) c" "(db w)\<lparr>StationItem_table := map (si_step (db w) mk ts c) (StationItem_table (db w))\<rparr>" pat]
  by simp

lemma select_for_commodities [simp]:
  "select_item_id (db (for_commodities mk ts cs w)) pat = select_item_id (db w) pat"
  by (induction cs arbitrary: w) simp_all

lemma step_same_lookup:
  assumes "\<And>pat. select_item_id d' pat = select_item_id d pat"
  shows "si_step d' = si_step d" "item_step d' = item_step d"
  by (simp_all add: fun_eq_iff si_step_def item_step_def assms)

lemma for_commodities_db:
  "db (for_commodities mk ts cs w) =
     (db w)\<lparr>StationItem_table :=
              map (\<lambda>r. foldl (\<lambda>r c. si_step (db w) mk ts c r) r cs) (StationItem_table (db w)),
            Item_table :=
              map (\<lambda>r. foldl (\<lambda>r c. item_step (db w) c r) r cs) (Item_table (db w))\<rparr>"
proof (induction cs arbitrary: w)
  case Nil
  show ?case by simp
next
  case (Cons c cs)
  let ?w1 = "for_commodity mk ts c w"
  have same: "si_step (db ?w1) = si_step (db w)" "item_step (db ?w1) = item_step (db w)"
    by (rule step_same_lookup, simp)+
  show ?case
    by (simp add: Cons.IH [of ?w1] same) (simp add: for_commodity_db o_def)
qed

lemma foldl_si_keys [simp]:
  "station_id (foldl (\<lambda>r c. si_step d mk ts c r) r cs) = station_id r"
  "StationItem.item_id (foldl (\<lambda>r c. si_step d mk ts c r) r cs) = StationItem.item_id r"
  by (induction cs arbitrary: r) simp_all

lemma foldl_item_keys [simp]:
  "Item.item_id (foldl (\<lambda>r c. item_step d c r) r cs) = Item.item_id r"
  "Item.name (foldl (\<lambda>r c. item_step d c r) r cs) = Item.name r"
  by (induction cs arbitrary: r) simp_all







lemma commodity_branch_accepted:
  assumes "\<not> is_carrier (stationName (EDDNCommodityMessage.message em))"
    and "normalize_timestamp (CommodityMessage.timestamp (EDDNCommodityMessage.message em)) = Inr ts"
  shows "fst (commodity_branch em w) = None"
    and "db (snd (commodity_branch em w)) =
      (db w)\<lparr>StationItem_table :=
              map (\<lambda>r. foldl (\<lambda>r c. si_step (db w) (marketId (EDDNCommodityMessage.message em)) ts c r) r
                    (commodities (EDDNCommodityMessage.message em))) (StationItem_table (db w)),
            Item_table :=
              map (\<lambda>r. foldl (\<lambda>r c. item_step (db w) c r) r (commodities (EDDNCommodityMessage.message em)))
                (Item_table (db w))\<rparr>"
  using assms by (simp_all add: commodity_branch_def Let_def for_commodities_db)





lemma si_step_cases:
  "si_step d mk ts c r =
     (if fetchone (select_item_id d (Commodity.name c)) = Some (StationItem.item_id r) \<and> station_id r = mk
      then r\<lparr>demand_price := sellPrice c, demand_units := demand c, demand_level := 0,
             supply_price := buyPrice c, supply_units := stock c, supply_level := 0,
             StationItem.modified := ts, from_live := 1\<rparr>
      else r)"
  by (auto simp: si_step_def update_StationItem_def split: option.splits)

lemma item_step_cases:
  "item_step d c r =
     (if fetchone (select_item_id d (Commodity.name c)) = Some (Item.item_id r)
      then r\<lparr>avg_price := meanPrice c\<rparr> else r)"
  by (auto simp: item_step_def update_Item_def split: option.splits)

lemma foldl_si_absorb:
  assumes "station_id r' = station_id r" and "StationItem.item_id r' = StationItem.item_id r"
    and "\<exists>c \<in> set cs. fetchone (select_item_id d (Commodity.name c)) = Some (StationItem.item_id r) \<and> station_id r = mk"
  shows "foldl (\<lambda>r c. si_step d mk ts c r) r' cs = foldl (\<lambda>r c. si_step d mk ts c r) r cs"
  using assms
proof (induction cs arbitrary: r r')
  case Nil
  then show ?case by simp
next
  case (Cons c cs)
  show ?case
  proof (cases "fetchone (select_item_id d (Commodity.name c)) = Some (StationItem.item_id r) \<and> station_id r = mk")
    case True
    then have "si_step d mk ts c r' = si_step d mk ts c r"
      using Cons.prems(1,2) by (simp add: si_step_cases)
    then show ?thesis by simp
  next
    case False
    then have e: "si_step d mk ts c r' = r'" "si_step d mk ts c r = r"
      using Cons.prems(1,2) by (auto simp: si_step_cases)
    from False Cons.prems(3) have "\<exists>c \<in> set cs. fetchone (select_item_id d (Commodity.name c)) = Some (StationItem.item_id r) \<and> station_id r = mk"
      by auto
    then show ?thesis
      using Cons.IH [OF Cons.prems(1,2)] by (simp add: e)
  qed
qed

lemma foldl_si_untouched:
  assumes "\<not> (\<exists>c \<in> set cs. fetchone (select_item_id d (Commodity.name c)) = Some (StationItem.item_id r) \<and> station_id r = mk)"
  shows "foldl (\<lambda>r c. si_step d mk ts c r) r cs = r"
  using assms by (induction cs) (auto simp: si_step_cases)

lemma foldl_si_idem:
  "foldl (\<lambda>r c. si_step d mk ts c r) (foldl (\<lambda>r c. si_step d mk ts c r) r cs) cs =
   foldl (\<lambda>r c. si_step d mk ts c r) r cs"
proof (cases "\<exists>c \<in> set cs. fetchone (select_item_id d (Commodity.name c)) = Some (StationItem.item_id r) \<and> station_id r = mk")
  case True
  then show ?thesis
    by (intro foldl_si_absorb) simp_all
next
  case False
  then show ?thesis
    by (simp add: foldl_si_untouched)
qed

lemma foldl_item_absorb:
  assumes "Item.item_id r' = Item.item_id r" and "Item.name r' = Item.name r"
    and "\<exists>c \<in> set cs. fetchone (select_item_id d (Commodity.name c)) = Some (Item.item_id r)"
  shows "foldl (\<lambda>r c. item_step d c r) r' cs = foldl (\<lambda>r c. item_step d c r) r cs"
  using assms
proof (induction cs arbitrary: r r')
  case Nil
  then show ?case by simp
next
  case (Cons c cs)
  show ?case
  proof (cases "fetchone (select_item_id d (Commodity.name c)) = Some (Item.item_id r)")
    case True
    then have "item_step d c r' = item_step d c r"
      using Cons.prems(1,2) by (simp add: item_step_cases)
    then show ?thesis by simp
  next
    case False
    then have e: "item_step d c r' = r'" "item_step d c r = r"
      using Cons.prems(1,2) by (auto simp: item_step_cases)
    from False Cons.prems(3) have "\<exists>c \<in> set cs. fetchone (select_item_id d (Commodity.name c)) = Some (Item.item_id r)"
      by auto
    then show ?thesis
      using Cons.IH [OF Cons.prems(1,2)] by (simp add: e)
  qed
qed

lemma foldl_item_untouched:
  assumes "\<not> (\<exists>c \<in> set cs. fetchone (select_item_id d (Commodity.name c)) = Some (Item.item_id r))"
  shows "foldl (\<lambda>r c. item_step d c r) r cs = r"
  using assms by (induction cs) (auto simp: item_step_cases)

lemma foldl_item_idem:
  "foldl (\<lambda>r c. item_step d c r) (foldl (\<lambda>r c. item_step d c r) r cs) cs =
   foldl (\<lambda>r c. item_step d c r) r cs"
proof (cases "\<exists>c \<in> set cs. fetchone (select_item_id d (Commodity.name c)) = Some (Item.item_id r)")
  case True
  then show ?thesis
    by (intro foldl_item_absorb) simp_all
next
  case False
  then show ?thesis
    by (simp add: foldl_item_untouched)
qed






lemma commodity_branch_cases:
  "commodity_branch em w =
     (if is_carrier (stationName (EDDNCommodityMessage.message em)) then (None, w)
      else case normalize_timestamp (CommodityMessage.timestamp (EDDNCommodityMessage.message em)) of
             Inl e \<Rightarrow>
               (Some e,
                w\<lparr>trace := trace w @
                    [Print_Market (systemName (EDDNCommodityMessage.message em))
                       (stationName (EDDNCommodityMessage.message em))
                       (softwareName (EDDNCommodityMessage.header em))
                       (softwareVersion (EDDNCommodityMessage.header em)), Connect]\<rparr>)
           | Inr ts \<Rightarrow>
               (None, emit Close (emit Commit
                  (for_commodities (marketId (EDDNCommodityMessage.message em)) ts
                     (commodities (EDDNCommodityMessage.message em))
                     (emit Connect (emit (Print_Market (systemName (EDDNCommodityMessage.message em))
                       (stationName (EDDNCommodityMessage.message em))
                       (softwareName (EDDNCommodityMessage.header em))
                       (softwareVersion (EDDNCommodityMessage.header em))) w))))))"
  by (simp add: commodity_branch_def Let_def emit_def split: sum.splits)


text \<open>
  C7. Applying the same commodity message twice leaves the tables of the store in the
  same state as applying it once.
\<close>

theorem C7_commodity_message_idempotent:
  "db (snd (commodity_branch em (snd (commodity_branch em w)))) = db (snd (commodity_branch em w))"
proof (cases "is_carrier (stationName (EDDNCommodityMessage.message em))")
  case True
  then show ?thesis by (simp add: commodity_branch_cases)
next
  case acc: False
  show ?thesis
  proof (cases "normalize_timestamp (CommodityMessage.timestamp (EDDNCommodityMessage.message em))")
    case (Inl e)
    with acc show ?thesis by (simp add: commodity_branch_cases)
  next
    case (Inr ts)
    let ?w1 = "snd (commodity_branch em w)"
    note once = commodity_branch_accepted(2) [OF acc Inr]
    have look: "select_item_id (db ?w1) pat = select_item_id (db w) pat" for pat
      using acc Inr by (simp add: commodity_branch_cases)
    have same: "si_step (db ?w1) = si_step (db w)" "item_step (db ?w1) = item_step (db w)"
      by (rule step_same_lookup, rule look)+
    show ?thesis
      unfolding once [of ?w1] same
      unfolding once [of w]
      by (simp add: o_def foldl_si_idem foldl_item_idem)
  qed
qed


section \<open>Properties of the classification\<close>

lemma startswith_iff: "startswith s sub \<longleftrightarrow> (\<exists>post. s = sub @ post)"
proof
  assume "startswith s sub"
  then have "s = sub @ drop (length sub) s"
    by (metis append_take_drop_id startswith_def)
  then show "\<exists>post. s = sub @ post" ..
next
  assume "\<exists>post. s = sub @ post"
  then show "startswith s sub" by (auto simp: startswith_def)
qed

lemma py_in_iff: "py_in sub s \<longleftrightarrow> (\<exists>pre post. s = pre @ sub @ post)"
proof (induction s)
  case Nil
  then show ?case by simp
next
  case (Cons c cs)
  have "(\<exists>pre post. c # cs = pre @ sub @ post) \<longleftrightarrow>
      (\<exists>post. c # cs = sub @ post) \<or> (\<exists>pre post. cs = pre @ sub @ post)"
  proof
    assume "\<exists>pre post. c # cs = pre @ sub @ post"
    then obtain pre post where e: "c # cs = pre @ sub @ post" by blast
    show "(\<exists>post. c # cs = sub @ post) \<or> (\<exists>pre post. cs = pre @ sub @ post)"
    proof (cases pre)
      case Nil
      with e show ?thesis by auto
    next
      case (Cons p pre')
      with e have "cs = pre' @ sub @ post" by simp
      then show ?thesis by blast
    qed
  next
    assume "(\<exists>post. c # cs = sub @ post) \<or> (\<exists>pre post. cs = pre @ sub @ post)"
    then show "\<exists>pre post. c # cs = pre @ sub @ post"
    proof
      assume "\<exists>post. c # cs = sub @ post"
      then obtain post where "c # cs = [] @ sub @ post" by auto
      then show ?thesis by blast
    next
      assume "\<exists>pre post. cs = pre @ sub @ post"
      then obtain pre post where "c # cs = (c # pre) @ sub @ post" by auto
      then show ?thesis by blast
    qed
  qed
  then show ?case
    by (simp add: Cons.IH startswith_iff)
qed

lemma handle_frame_discard:
  assumes "decompress K frame = Inr js" and "classify js = No_route"
  shows "handle_frame K frame w = w"
  using assms by (simp add: handle_frame_def try_block_def process_payload_def)

lemma worker_step_frame:
  assumes "i < length (workers s)" and "workers s ! i = In_get"
    and "message_queue s = Some frame # q"
  shows "worker_step K i s =
     s\<lparr>message_queue := q, workers := (workers s)[i := At_while],
       store := handle_frame K frame (store s), handled := handled s @ [frame]\<rparr>"
  using assms by (simp add: worker_step_def)

text \<open>
  C8. A decoded payload that contains the text \<open>commodity\<close> is handled as a commodity
  update; otherwise, one that contains both \<open>journal\<close> and \<open>FSDJump\<close> is handled as a system
  event; otherwise it is discarded: no error is raised, the world is left as it was
  (nothing is printed, the store is not opened), and the worker, still in its loop, has
  taken the frame off the queue.
\<close>

theorem C8_classification_by_substring:
  "((\<exists>pre post. js = pre @ ''commodity'' @ post) \<longrightarrow>
      process_payload K js w =
        (case commodity_from_json K js of
           Inl e \<Rightarrow> (Some e, w) | Inr em \<Rightarrow> commodity_branch em w)) \<and>
   (\<not> (\<exists>pre post. js = pre @ ''commodity'' @ post) \<and>
    (\<exists>pre post. js = pre @ ''journal'' @ post) \<and> (\<exists>pre post. js = pre @ ''FSDJump'' @ post) \<longrightarrow>
      process_payload K js w =
        (case fsdjump_from_json K js of
           Inl e \<Rightarrow> (Some e, w) | Inr em \<Rightarrow> fsdjump_branch em w)) \<and>
   (\<not> (\<exists>pre post. js = pre @ ''commodity'' @ post) \<and>
    \<not> ((\<exists>pre post. js = pre @ ''journal'' @ post) \<and> (\<exists>pre post. js = pre @ ''FSDJump'' @ post)) \<longrightarrow>
      process_payload K js w = (None, w) \<and>
      (decompress K frame = Inr js \<longrightarrow>
         handle_frame K frame w = w \<and>
         (i < length (workers s) \<and> workers s ! i = In_get \<and>
          message_queue s = Some frame # q \<longrightarrow>
            worker_step K i s =
              s\<lparr>message_queue := q, workers := (workers s)[i := At_while],
                handled := handled s @ [frame]\<rparr>)))"
proof -
  have c: "classify js =
     (if \<exists>pre post. js = pre @ ''commodity'' @ post then Commodity_route
      else if (\<exists>pre post. js = pre @ ''journal'' @ post) \<and> (\<exists>pre post. js = pre @ ''FSDJump'' @ post)
      then FSDJump_route else No_route)"
    unfolding classify_def py_in_iff ..
  show ?thesis
  proof (intro conjI impI)
    assume "\<exists>pre post. js = pre @ ''commodity'' @ post"
    then show "process_payload K js w =
        (case commodity_from_json K js of Inl e \<Rightarrow> (Some e, w) | Inr em \<Rightarrow> commodity_branch em w)"
      by (simp add: process_payload_def c)
  next
    assume "\<not> (\<exists>pre post. js = pre @ ''commodity'' @ post) \<and>
      (\<exists>pre post. js = pre @ ''journal'' @ post) \<and> (\<exists>pre post. js = pre @ ''FSDJump'' @ post)"
    then show "process_payload K js w =
        (case fsdjump_from_json K js of Inl e \<Rightarrow> (Some e, w) | Inr em \<Rightarrow> fsdjump_branch em w)"
      by (simp add: process_payload_def c)
  next
    assume n: "\<not> (\<exists>pre post. js = pre @ ''commodity'' @ post) \<and>
      \<not> ((\<exists>pre post. js = pre @ ''journal'' @ post) \<and> (\<exists>pre post. js = pre @ ''FSDJump'' @ post))"
    then have r: "classify js = No_route" by (simp add: c)
    show "process_payload K js w = (None, w)"
      by (simp add: process_payload_def r)
    {
      assume d: "decompress K frame = Inr js"
      show "handle_frame K frame w = w"
        using d r by (rule handle_frame_discard)
      assume "i < length (workers s) \<and> workers s ! i = In_get \<and> message_queue s = Some frame # q"
      then show "worker_step K i s =
          s\<lparr>message_queue := q, workers := (workers s)[i := At_while],
            handled := handled s @ [frame]\<rparr>"
        by (simp add: worker_step_frame handle_frame_discard [OF d r])
    }
  qed
qed

theorem C8_classification_by_substring_witness:
  "(\<exists>pre post. ''schemas/commodity/3 first'' = pre @ ''commodity'' @ post) \<and>
   process_payload example_codec ''schemas/commodity/3 first'' example_world =
     commodity_branch (example_update ''2024-01-01T12:00:00Z'' [unobtainium, tritium, agronomic])
       example_world \<and>
   \<not> py_in ''commodity'' ''schemas/journal/1 FSDJump'' \<and>
   py_in ''journal'' ''schemas/journal/1 FSDJump'' \<and> py_in ''FSDJump'' ''schemas/journal/1 FSDJump'' \<and>
   process_payload example_codec ''schemas/journal/1 FSDJump'' example_world =
     fsdjump_branch (example_jump None (Some ''2024-01-01T12:00:00Z'')) example_world \<and>
   \<not> py_in ''commodity'' ''schemas/outfitting/2'' \<and> \<not> py_in ''journal'' ''schemas/outfitting/2'' \<and>
   decompress example_codec 4 = Inr ''schemas/outfitting/2'' \<and>
   process_payload example_codec ''schemas/outfitting/2'' example_world = (None, example_world) \<and>
   handle_frame example_codec 4 example_world = example_world \<and>
   message_queue (run example_codec [Receive 4, Put, Receive 1, Put, Worker 0] (start example_world)) =
     [Some 4, Some 1] \<and>
   workers (run example_codec [Receive 4, Put, Receive 1, Put, Worker 0] (start example_world)) ! 0 =
     In_get \<and>
   message_queue (run example_codec [Receive 4, Put, Receive 1, Put, Worker 0, Worker 0]
     (start example_world)) = [Some 1] \<and>
   workers (run example_codec [Receive 4, Put, Receive 1, Put, Worker 0, Worker 0]
     (start example_world)) ! 0 = At_while \<and>
   handled (run example_codec [Receive 4, Put, Receive 1, Put, Worker 0, Worker 0]
     (start example_world)) = [4] \<and>
   store (run example_codec [Receive 4, Put, Receive 1, Put, Worker 0, Worker 0]
     (start example_world)) = example_world"
proof -
  let ?K = example_codec and ?w = example_world
  let ?s = "run example_codec [Receive 4, Put, Receive 1, Put, Worker 0] (start example_world)"
  let ?s' = "run example_codec [Receive 4, Put, Receive 1, Put, Worker 0, Worker 0] (start example_world)"
  have a1: "\<exists>pre post. ''schemas/commodity/3 first'' = pre @ ''commodity'' @ post"
    unfolding py_in_iff [symmetric] by code_simp
  have b: "\<not> py_in ''commodity'' ''schemas/journal/1 FSDJump''"
    "py_in ''journal'' ''schemas/journal/1 FSDJump''" "py_in ''FSDJump'' ''schemas/journal/1 FSDJump''"
    by code_simp+
  have c: "\<not> py_in ''commodity'' ''schemas/outfitting/2''" "\<not> py_in ''journal'' ''schemas/outfitting/2''"
    by code_simp+
  have d: "decompress ?K 4 = Inr ''schemas/outfitting/2''"
    by (simp add: example_codec_def)
  have p: "commodity_from_json ?K ''schemas/commodity/3 first'' =
      Inr (example_update ''2024-01-01T12:00:00Z'' [unobtainium, tritium, agronomic])"
    "fsdjump_from_json ?K ''schemas/journal/1 FSDJump'' =
      Inr (example_jump None (Some ''2024-01-01T12:00:00Z''))"
    by (simp_all add: example_codec_def)
  have q: "message_queue ?s = [Some 4, Some 1]" "workers ?s ! 0 = In_get"
    "0 < length (workers ?s)" "handled ?s = []" "store ?s = example_world"
    by (simp_all add: run_def start_def num_workers_def worker_step_def)
  have s': "?s' = worker_step ?K 0 ?s"
    by (simp add: run_def)
  note t1 = C8_classification_by_substring
    [where js = "''schemas/commodity/3 first''" and K = ?K and w = ?w, THEN conjunct1, rule_format, OF a1]
  note t2 = C8_classification_by_substring
    [where js = "''schemas/journal/1 FSDJump''" and K = ?K and w = ?w, THEN conjunct2, THEN conjunct1,
     unfolded py_in_iff [symmetric], rule_format]
  note t3 = C8_classification_by_substring
    [where js = "''schemas/outfitting/2''" and K = ?K and w = ?w and frame = 4 and i = 0 and s = ?s
       and q = "[Some 1]", THEN conjunct2, THEN conjunct2, unfolded py_in_iff [symmetric], rule_format]
  have c3: "\<not> py_in ''commodity'' ''schemas/outfitting/2'' \<and>
      \<not> (py_in ''journal'' ''schemas/outfitting/2'' \<and> py_in ''FSDJump'' ''schemas/outfitting/2'')"
    using c by simp
  have r3: "process_payload ?K ''schemas/outfitting/2'' ?w = (None, ?w)"
    "handle_frame ?K 4 ?w = ?w"
    "worker_step ?K 0 ?s =
       ?s\<lparr>message_queue := [Some 1], workers := (workers ?s)[0 := At_while],
         handled := handled ?s @ [4]\<rparr>"
    using t3 [OF c3] d q(1,2,3) by blast+
  have r4: "message_queue ?s' = [Some 1]" "workers ?s' ! 0 = At_while" "handled ?s' = [4]"
    "store ?s' = example_world"
    unfolding s' r3(3) using q(3,4,5) by simp_all
  have r2: "process_payload ?K ''schemas/journal/1 FSDJump'' ?w =
     fsdjump_branch (example_jump None (Some ''2024-01-01T12:00:00Z'')) ?w"
    using t2 b by (simp add: p)
  have r1: "process_payload ?K ''schemas/commodity/3 first'' ?w =
     commodity_branch (example_update ''2024-01-01T12:00:00Z'' [unobtainium, tritium, agronomic]) ?w"
    using t1 by (simp add: p)
  show ?thesis
    by (intro conjI a1 b c d r1 r2 r3(1,2) q(1,2) r4)
qed

section \<open>Properties of the system-event branch\<close>




section \<open>Malformed timestamps\<close>





section \<open>Shutdown\<close>

lemma frames_of_simps [simp]:
  "frames_of [] = []" "frames_of (None # q) = frames_of q" "frames_of (Some f # q) = f # frames_of q"
  "frames_of (q @ q') = frames_of q @ frames_of q'"
  by (simp_all add: frames_of_def)














end
